theory Spec2Isabelle
  imports Main "HOL-Library.Sublist"
begin

section \<open>Python values\<close>

text \<open>
  The arguments the wrapper formats into strings or query parameters are documented as
  \<^verbatim>\<open>int\<close>, \<^verbatim>\<open>str\<close> or \<^verbatim>\<open>bool\<close>, each optional: they are scalars. The
  values it passes through as JSON (request bodies, decoded responses, return values) are
  scalars, lists and dictionaries; a dictionary is an association list in insertion order.
  Floating-point numbers are outside this embedding.
\<close>

datatype scalar = PyNone | PyBool bool | PyInt int | PyStr string

datatype pyval = Atom scalar | PyList "pyval list" | PyDict "(string \<times> pyval) list"

text \<open>Truth value of a scalar, as \<^verbatim>\<open>not api_token\<close> tests it.\<close>

fun truthy :: "scalar \<Rightarrow> bool" where
  "truthy PyNone = False"
| "truthy (PyBool b) = b"
| "truthy (PyInt i) = (i \<noteq> 0)"
| "truthy (PyStr s) = (s \<noteq> [])"

text \<open>\<^verbatim>\<open>str(x)\<close>, which is what an f-string field \<^verbatim>\<open>{x}\<close> inserts.\<close>

definition digit :: "nat \<Rightarrow> char" where
  "digit d = ''0123456789'' ! d"

function str_nat :: "nat \<Rightarrow> string" where
  "str_nat n = (if n < 10 then [digit n] else str_nat (n div 10) @ [digit (n mod 10)])"
  by pat_completeness auto
termination
  by (relation "measure id") auto

definition str_int :: "int \<Rightarrow> string" where
  "str_int i = (if i < 0 then CHR ''-'' # str_nat (nat (- i)) else str_nat (nat i))"

fun py_str :: "scalar \<Rightarrow> string" where
  "py_str PyNone = ''None''"
| "py_str (PyBool b) = (if b then ''True'' else ''False'')"
| "py_str (PyInt i) = str_int i"
| "py_str (PyStr s) = s"

section \<open>Exceptions\<close>

text \<open>
  \<open>HTTPError\<close> is the exception of \<^verbatim>\<open>raise_for_status\<close>, a subclass of
  \<^verbatim>\<open>requests.exceptions.RequestException\<close>. \<open>RequestException\<close> stands for any other
  instance of that class (ConnectionError, Timeout, ...), \<open>OtherException\<close> for an
  exception outside it; both carry the class name.
\<close>

datatype exn =
    ValueError string
  | HTTPError int
  | RequestException string
  | OtherException string

text \<open>What the clause \<^verbatim>\<open>except requests.exceptions.RequestException\<close> catches.\<close>

fun is_RequestException :: "exn \<Rightarrow> bool" where
  "is_RequestException (HTTPError s) = True"
| "is_RequestException (RequestException n) = True"
| "is_RequestException (ValueError m) = False"
| "is_RequestException (OtherException n) = False"

section \<open>The HTTP library as the wrapper uses it\<close>

text \<open>
  The \<^verbatim>\<open>requests\<close> package is not part of the repository. Its behaviour is modelled as
  far as the wrapper depends on it, from the package's documentation:
  \<^item> a request is what is handed to the transport: verb, URL, the headers given by the
    caller, the query parameters and the JSON body. The URL and the query are kept apart,
    and neither percent-encoding nor JSON serialisation is modelled;
  \<^item> a key of \<^verbatim>\<open>params\<close> whose value is \<^verbatim>\<open>None\<close> is not added to the query string;
  \<^item> \<^verbatim>\<open>json=None\<close> sends no body;
  \<^item> \<^verbatim>\<open>raise_for_status\<close> raises \<^verbatim>\<open>HTTPError\<close> for a status from 400 to 599 and
    returns otherwise;
  \<^item> \<^verbatim>\<open>response.json()\<close> returns the decoded body or raises. The field \<open>json\<close> of a
    response is that result, so a body that is not JSON is a response whose \<open>json\<close> is an
    exception; which class it has depends on the version of the package.
  The transport is a parameter: it answers a request, given the requests issued before
  it, with a response or an exception.
\<close>

datatype verb = GET | POST | PATCH | DELETE

record request =
  verb :: verb
  url :: string
  req_headers :: "(string \<times> string) list"
  query :: "(string \<times> scalar) list"
  json_body :: "pyval option"

record response =
  status_code :: int
  json :: "exn + pyval"

datatype outcome = Raised exn | Returned response

type_synonym transport = "request list \<Rightarrow> request \<Rightarrow> outcome"

text \<open>
  The effects of a call: the requests issued, oldest first, and the messages given to
  \<^verbatim>\<open>logger.error\<close>, each as its fixed text and the exception formatted after it.
\<close>

record world =
  sent :: "request list"
  logged :: "(string \<times> exn) list"

definition encode_params :: "(string \<times> scalar) list \<Rightarrow> (string \<times> scalar) list" where
  "encode_params params = filter (\<lambda>(k, v). v \<noteq> PyNone) params"

definition requests_request ::
  "transport \<Rightarrow> verb \<Rightarrow> string \<Rightarrow> (string \<times> string) list \<Rightarrow> (string \<times> scalar) list
     \<Rightarrow> pyval \<Rightarrow> world \<Rightarrow> outcome \<times> world" where
  "requests_request t m u hs params js w =
     (let req = \<lparr>verb = m, url = u, req_headers = hs, query = encode_params params,
                 json_body = (if js = Atom PyNone then None else Some js)\<rparr>
      in (t (sent w) req, w\<lparr>sent := sent w @ [req]\<rparr>))"

definition requests_get ::
  "transport \<Rightarrow> string \<Rightarrow> (string \<times> string) list \<Rightarrow> (string \<times> scalar) list
     \<Rightarrow> world \<Rightarrow> outcome \<times> world" where
  "requests_get t u hs params = requests_request t GET u hs params (Atom PyNone)"

definition requests_post ::
  "transport \<Rightarrow> string \<Rightarrow> (string \<times> string) list \<Rightarrow> pyval \<Rightarrow> world \<Rightarrow> outcome \<times> world" where
  "requests_post t u hs js = requests_request t POST u hs [] js"

definition requests_patch ::
  "transport \<Rightarrow> string \<Rightarrow> (string \<times> string) list \<Rightarrow> pyval \<Rightarrow> world \<Rightarrow> outcome \<times> world" where
  "requests_patch t u hs js = requests_request t PATCH u hs [] js"

definition requests_delete ::
  "transport \<Rightarrow> string \<Rightarrow> (string \<times> string) list \<Rightarrow> world \<Rightarrow> outcome \<times> world" where
  "requests_delete t u hs = requests_request t DELETE u hs [] (Atom PyNone)"

definition raise_for_status :: "response \<Rightarrow> exn + unit" where
  "raise_for_status r =
     (if 400 \<le> status_code r \<and> status_code r < 600 then Inl (HTTPError (status_code r))
      else Inr ())"

section \<open>The class SweetProcessAPI\<close>

record SweetProcessAPI =
  base_url :: string
  headers :: "(string \<times> string) list"

text \<open>
  \<^verbatim>\<open>__init__\<close>. It raises or returns the object with its two attributes; it takes and
  returns the world as every method does, so that what it issues can be stated.
\<close>

definition init :: "scalar \<Rightarrow> world \<Rightarrow> (exn + SweetProcessAPI) \<times> world" where
  "init api_token w =
     (if \<not> truthy api_token then (Inl (ValueError ''API token is required.''), w)
      else (Inr \<lparr>base_url = ''https://www.sweetprocess.com/api/v1'',
                 headers = [(''Authorization'', ''Token '' @ py_str api_token),
                            (''Content-Type'', ''application/json'')]\<rparr>, w))"

text \<open>
  Every method has the same frame. The body of \<^verbatim>\<open>try\<close> is the request,
  \<^verbatim>\<open>response.raise_for_status()\<close> and the \<^verbatim>\<open>return\<close>; \<open>try_body\<close> is the last two, given
  what the request did. The handler catches a \<^verbatim>\<open>RequestException\<close>, logs it and returns
  \<^verbatim>\<open>None\<close>; any other exception leaves the method.
\<close>

definition try_body :: "(response \<Rightarrow> exn + pyval) \<Rightarrow> outcome \<Rightarrow> exn + pyval" where
  "try_body ret out =
     (case out of
        Raised e \<Rightarrow> Inl e
      | Returned response \<Rightarrow>
          (case raise_for_status response of
             Inl e \<Rightarrow> Inl e
           | Inr u \<Rightarrow> ret response))"

definition return_status_code :: "response \<Rightarrow> exn + pyval" where
  "return_status_code response = Inr (Atom (PyInt (status_code response)))"

definition except_RequestException ::
  "string \<Rightarrow> (exn + pyval) \<times> world \<Rightarrow> (exn + pyval) \<times> world" where
  "except_RequestException msg rw =
     (case rw of
        (Inl e, w) \<Rightarrow>
          if is_RequestException e
          then (Inr (Atom PyNone), w\<lparr>logged := logged w @ [(msg, e)]\<rparr>)
          else (Inl e, w)
      | (Inr v, w) \<Rightarrow> (Inr v, w))"

definition get_procedures ::
  "transport \<Rightarrow> SweetProcessAPI \<Rightarrow> scalar \<Rightarrow> scalar \<Rightarrow> scalar \<Rightarrow> scalar \<Rightarrow> scalar \<Rightarrow> scalar
     \<Rightarrow> world \<Rightarrow> (exn + pyval) \<times> world" where
  "get_procedures t self team_id search tag policy_id visible_to_user ordering' w =
     (let url = base_url self @ ''/procedures/'';
          params = [(''team_id'', team_id),
                    (''search'', search),
                    (''tag'', tag),
                    (''policy_id'', policy_id),
                    (''visible_to_user'', visible_to_user),
                    (''ordering'', ordering')];
          (out, w') = requests_get t url (headers self) params w
      in except_RequestException ''Error retrieving procedures: '' (try_body json out, w'))"

definition get_taskinstances ::
  "transport \<Rightarrow> SweetProcessAPI \<Rightarrow> scalar \<Rightarrow> scalar \<Rightarrow> scalar \<Rightarrow> scalar \<Rightarrow> scalar \<Rightarrow> scalar
     \<Rightarrow> scalar \<Rightarrow> world \<Rightarrow> (exn + pyval) \<times> world" where
  "get_taskinstances t self template_id user content_type object_id completed due__lte due__gte w =
     (let url = base_url self @ ''/taskinstances/'';
          params = [(''template_id'', template_id),
                    (''user'', user),
                    (''content_type'', content_type),
                    (''object_id'', object_id),
                    (''completed'', completed),
                    (''due__lte'', due__lte),
                    (''due__gte'', due__gte)];
          (out, w') = requests_get t url (headers self) params w
      in except_RequestException ''Error retrieving task instances: '' (try_body json out, w'))"

definition get_users ::
  "transport \<Rightarrow> SweetProcessAPI \<Rightarrow> scalar \<Rightarrow> scalar \<Rightarrow> scalar \<Rightarrow> scalar \<Rightarrow> scalar
     \<Rightarrow> world \<Rightarrow> (exn + pyval) \<times> world" where
  "get_users t self team_id exclude_team_id id' exclude_id status w =
     (let url = base_url self @ ''/users/'';
          params = [(''team_id'', team_id),
                    (''exclude_team_id'', exclude_team_id),
                    (''id'', id'),
                    (''exclude_id'', exclude_id),
                    (''status'', status)];
          (out, w') = requests_get t url (headers self) params w
      in except_RequestException ''Error retrieving users: '' (try_body json out, w'))"

definition invite_user ::
  "transport \<Rightarrow> SweetProcessAPI \<Rightarrow> pyval \<Rightarrow> pyval \<Rightarrow> pyval \<Rightarrow> world \<Rightarrow> (exn + pyval) \<times> world" where
  "invite_user t self name email is_super_manager w =
     (let url = base_url self @ ''/users/'';
          data = PyDict [(''name'', name),
                         (''email'', email),
                         (''is_super_manager'', is_super_manager)];
          (out, w') = requests_post t url (headers self) data w
      in except_RequestException ''Error inviting user: '' (try_body json out, w'))"

definition update_user ::
  "transport \<Rightarrow> SweetProcessAPI \<Rightarrow> scalar \<Rightarrow> pyval \<Rightarrow> world \<Rightarrow> (exn + pyval) \<times> world" where
  "update_user t self user_id data w =
     (let url = base_url self @ ''/users/'' @ py_str user_id @ ''/'';
          (out, w') = requests_patch t url (headers self) data w
      in except_RequestException ''Error updating user: '' (try_body json out, w'))"

definition delete_user ::
  "transport \<Rightarrow> SweetProcessAPI \<Rightarrow> scalar \<Rightarrow> world \<Rightarrow> (exn + pyval) \<times> world" where
  "delete_user t self user_id w =
     (let url = base_url self @ ''/users/'' @ py_str user_id @ ''/'';
          (out, w') = requests_delete t url (headers self) w
      in except_RequestException ''Error deleting user: ''
           (try_body return_status_code out, w'))"

definition create_invitation ::
  "transport \<Rightarrow> SweetProcessAPI \<Rightarrow> pyval \<Rightarrow> pyval \<Rightarrow> pyval \<Rightarrow> pyval \<Rightarrow> pyval
     \<Rightarrow> world \<Rightarrow> (exn + pyval) \<times> world" where
  "create_invitation t self send_mail content_type permission object_id to_user_id w =
     (let url = base_url self @ ''/invitations/'';
          data = PyList [PyDict [(''send_mail'', send_mail),
                                 (''content_type'', content_type),
                                 (''permission'', permission),
                                 (''object_id'', object_id),
                                 (''to_user_id'', to_user_id)]];
          (out, w') = requests_post t url (headers self) data w
      in except_RequestException ''Error creating invitation: '' (try_body json out, w'))"

definition delete_teamuser ::
  "transport \<Rightarrow> SweetProcessAPI \<Rightarrow> scalar \<Rightarrow> world \<Rightarrow> (exn + pyval) \<times> world" where
  "delete_teamuser t self teamuser_id w =
     (let url = base_url self @ ''/teamusers/'' @ py_str teamuser_id @ ''/'';
          (out, w') = requests_delete t url (headers self) w
      in except_RequestException ''Error deleting teamuser: ''
           (try_body return_status_code out, w'))"

section \<open>Calls\<close>

text \<open>
  One call of a public method with its arguments, so that a statement can range over
  every operation; \<open>run_calls\<close> makes a sequence of calls on the same object.
\<close>

datatype call =
    Get_procedures scalar scalar scalar scalar scalar scalar
  | Get_taskinstances scalar scalar scalar scalar scalar scalar scalar
  | Get_users scalar scalar scalar scalar scalar
  | Invite_user pyval pyval pyval
  | Update_user scalar pyval
  | Delete_user scalar
  | Create_invitation pyval pyval pyval pyval pyval
  | Delete_teamuser scalar

fun run_call :: "transport \<Rightarrow> SweetProcessAPI \<Rightarrow> call \<Rightarrow> world \<Rightarrow> (exn + pyval) \<times> world" where
  "run_call t self (Get_procedures a b c d e f) w = get_procedures t self a b c d e f w"
| "run_call t self (Get_taskinstances a b c d e f g) w = get_taskinstances t self a b c d e f g w"
| "run_call t self (Get_users a b c d e) w = get_users t self a b c d e w"
| "run_call t self (Invite_user a b c) w = invite_user t self a b c w"
| "run_call t self (Update_user a b) w = update_user t self a b w"
| "run_call t self (Delete_user a) w = delete_user t self a w"
| "run_call t self (Create_invitation a b c d e) w = create_invitation t self a b c d e w"
| "run_call t self (Delete_teamuser a) w = delete_teamuser t self a w"

fun run_calls :: "transport \<Rightarrow> SweetProcessAPI \<Rightarrow> call list \<Rightarrow> world \<Rightarrow> world" where
  "run_calls t self [] w = w"
| "run_calls t self (c # cs) w = run_calls t self cs (snd (run_call t self c w))"

text \<open>The requests issued between two worlds.\<close>

definition issued :: "world \<Rightarrow> world \<Rightarrow> request list" where
  "issued w w' = drop (length (sent w)) (sent w')"

section \<open>Fixtures and predicates of the statements\<close>

text \<open>The world before any call.\<close>

definition start :: world where
  "start = \<lparr>sent = [], logged = []\<rparr>"

text \<open>The calls of the three list methods.\<close>

fun read_operation :: "call \<Rightarrow> bool" where
  "read_operation (Get_procedures a b c d e f) = True"
| "read_operation (Get_taskinstances a b c d e f g) = True"
| "read_operation (Get_users a b c d e) = True"
| "read_operation c = False"

text \<open>A transport that answers every request with the same outcome.\<close>

definition mock :: "outcome \<Rightarrow> transport" where
  "mock out h req = out"

text \<open>
  The outcomes the methods treat as a failed request: the library raised a
  \<^verbatim>\<open>RequestException\<close>, or \<^verbatim>\<open>raise_for_status\<close> will raise for the status.
\<close>

fun request_failed :: "outcome \<Rightarrow> bool" where
  "request_failed (Raised e) = is_RequestException e"
| "request_failed (Returned r) = (400 \<le> status_code r \<and> status_code r < 600)"

text \<open>
  The optional filter arguments of a call of a list method, each under the name of the
  method's parameter; a filter left unset has the default \<^verbatim>\<open>None\<close>.
\<close>

fun filter_arguments :: "call \<Rightarrow> (string \<times> scalar) list" where
  "filter_arguments (Get_procedures team_id search tag policy_id visible_to_user ordering') =
     [(''team_id'', team_id), (''search'', search), (''tag'', tag), (''policy_id'', policy_id),
      (''visible_to_user'', visible_to_user), (''ordering'', ordering')]"
| "filter_arguments (Get_taskinstances template_id user content_type object_id completed
      due__lte due__gte) =
     [(''template_id'', template_id), (''user'', user), (''content_type'', content_type),
      (''object_id'', object_id), (''completed'', completed), (''due__lte'', due__lte),
      (''due__gte'', due__gte)]"
| "filter_arguments (Get_users team_id exclude_team_id id' exclude_id status) =
     [(''team_id'', team_id), (''exclude_team_id'', exclude_team_id), (''id'', id'),
      (''exclude_id'', exclude_id), (''status'', status)]"
| "filter_arguments c = []"

section \<open>Each method as one request and its frame\<close>

lemmas requests_defs =
  requests_get_def requests_post_def requests_patch_def requests_delete_def
  requests_request_def encode_params_def

lemma get_procedures_eq:
  "get_procedures t self team_id search tag policy_id visible_to_user ordering' w =
     (let req = \<lparr>verb = GET, url = base_url self @ ''/procedures/'',
                 req_headers = headers self,
                 query = filter (\<lambda>(k, v). v \<noteq> PyNone)
                           [(''team_id'', team_id), (''search'', search), (''tag'', tag),
                            (''policy_id'', policy_id), (''visible_to_user'', visible_to_user),
                            (''ordering'', ordering')],
                 json_body = None\<rparr>
      in except_RequestException ''Error retrieving procedures: ''
           (try_body json (t (sent w) req), w\<lparr>sent := sent w @ [req]\<rparr>))"
  unfolding get_procedures_def requests_defs Let_def by simp

lemma get_taskinstances_eq:
  "get_taskinstances t self template_id user content_type object_id completed due__lte due__gte w =
     (let req = \<lparr>verb = GET, url = base_url self @ ''/taskinstances/'',
                 req_headers = headers self,
                 query = filter (\<lambda>(k, v). v \<noteq> PyNone)
                           [(''template_id'', template_id), (''user'', user),
                            (''content_type'', content_type), (''object_id'', object_id),
                            (''completed'', completed), (''due__lte'', due__lte),
                            (''due__gte'', due__gte)],
                 json_body = None\<rparr>
      in except_RequestException ''Error retrieving task instances: ''
           (try_body json (t (sent w) req), w\<lparr>sent := sent w @ [req]\<rparr>))"
  unfolding get_taskinstances_def requests_defs Let_def by simp

lemma get_users_eq:
  "get_users t self team_id exclude_team_id id' exclude_id status w =
     (let req = \<lparr>verb = GET, url = base_url self @ ''/users/'',
                 req_headers = headers self,
                 query = filter (\<lambda>(k, v). v \<noteq> PyNone)
                           [(''team_id'', team_id), (''exclude_team_id'', exclude_team_id),
                            (''id'', id'), (''exclude_id'', exclude_id), (''status'', status)],
                 json_body = None\<rparr>
      in except_RequestException ''Error retrieving users: ''
           (try_body json (t (sent w) req), w\<lparr>sent := sent w @ [req]\<rparr>))"
  unfolding get_users_def requests_defs Let_def by simp

lemma invite_user_eq:
  "invite_user t self name email is_super_manager w =
     (let req = \<lparr>verb = POST, url = base_url self @ ''/users/'',
                 req_headers = headers self, query = [],
                 json_body = Some (PyDict [(''name'', name), (''email'', email),
                                           (''is_super_manager'', is_super_manager)])\<rparr>
      in except_RequestException ''Error inviting user: ''
           (try_body json (t (sent w) req), w\<lparr>sent := sent w @ [req]\<rparr>))"
  unfolding invite_user_def requests_defs Let_def by simp

lemma update_user_eq:
  "update_user t self user_id data w =
     (let req = \<lparr>verb = PATCH, url = base_url self @ ''/users/'' @ py_str user_id @ ''/'',
                 req_headers = headers self, query = [],
                 json_body = (if data = Atom PyNone then None else Some data)\<rparr>
      in except_RequestException ''Error updating user: ''
           (try_body json (t (sent w) req), w\<lparr>sent := sent w @ [req]\<rparr>))"
  unfolding update_user_def requests_defs Let_def by simp

lemma delete_user_eq:
  "delete_user t self user_id w =
     (let req = \<lparr>verb = DELETE, url = base_url self @ ''/users/'' @ py_str user_id @ ''/'',
                 req_headers = headers self, query = [], json_body = None\<rparr>
      in except_RequestException ''Error deleting user: ''
           (try_body return_status_code (t (sent w) req), w\<lparr>sent := sent w @ [req]\<rparr>))"
  unfolding delete_user_def requests_defs Let_def by simp

lemma create_invitation_eq:
  "create_invitation t self send_mail content_type permission object_id to_user_id w =
     (let req = \<lparr>verb = POST, url = base_url self @ ''/invitations/'',
                 req_headers = headers self, query = [],
                 json_body = Some (PyList [PyDict [(''send_mail'', send_mail),
                                                   (''content_type'', content_type),
                                                   (''permission'', permission),
                                                   (''object_id'', object_id),
                                                   (''to_user_id'', to_user_id)]])\<rparr>
      in except_RequestException ''Error creating invitation: ''
           (try_body json (t (sent w) req), w\<lparr>sent := sent w @ [req]\<rparr>))"
  unfolding create_invitation_def requests_defs Let_def by simp

lemma delete_teamuser_eq:
  "delete_teamuser t self teamuser_id w =
     (let req = \<lparr>verb = DELETE, url = base_url self @ ''/teamusers/'' @ py_str teamuser_id @ ''/'',
                 req_headers = headers self, query = [], json_body = None\<rparr>
      in except_RequestException ''Error deleting teamuser: ''
           (try_body return_status_code (t (sent w) req), w\<lparr>sent := sent w @ [req]\<rparr>))"
  unfolding delete_teamuser_def requests_defs Let_def by simp

lemmas method_eqs =
  get_procedures_eq get_taskinstances_eq get_users_eq invite_user_eq update_user_eq
  delete_user_eq create_invitation_eq delete_teamuser_eq

lemma handler_sent: "sent (snd (except_RequestException msg (r, w))) = sent w"
  by (cases r) (simp_all add: except_RequestException_def)

lemma frame_failed:
  "request_failed out \<Longrightarrow>
   fst (except_RequestException msg (try_body ret out, w)) = Inr (Atom PyNone)"
  by (cases out) (simp_all add: except_RequestException_def try_body_def raise_for_status_def)

lemma frame_json:
  "out = Returned r \<Longrightarrow> \<not> (400 \<le> status_code r \<and> status_code r < 600) \<Longrightarrow> json r = Inr v \<Longrightarrow>
   fst (except_RequestException msg (try_body json out, w)) = Inr v"
  by (auto simp add: except_RequestException_def try_body_def raise_for_status_def)

lemma frame_status:
  "out = Returned r \<Longrightarrow> \<not> (400 \<le> status_code r \<and> status_code r < 600) \<Longrightarrow>
   fst (except_RequestException msg (try_body return_status_code out, w)) =
     Inr (Atom (PyInt (status_code r)))"
  by (simp add: except_RequestException_def try_body_def raise_for_status_def
        return_status_code_def)

lemma run_call_sent:
  "\<exists>req. sent (snd (run_call t self c w)) = sent w @ [req]
     \<and> req_headers req = headers self \<and> prefix (base_url self) (url req)"
  by (cases c) (simp_all add: method_eqs Let_def handler_sent)

lemma run_call_failed:
  "request_failed (t (sent w) (last (sent (snd (run_call t self c w))))) \<Longrightarrow>
   fst (run_call t self c w) = Inr (Atom PyNone)"
  by (cases c) (simp_all add: method_eqs Let_def handler_sent frame_failed)


lemma run_call_json:
  "read_operation c \<Longrightarrow> t (sent w) (last (sent (snd (run_call t self c w)))) = Returned r \<Longrightarrow>
   \<not> (400 \<le> status_code r \<and> status_code r < 600) \<Longrightarrow> json r = Inr v \<Longrightarrow>
   fst (run_call t self c w) = Inr v"
  by (cases c) (simp_all add: method_eqs Let_def handler_sent frame_json)

lemma run_calls_sent:
  "\<exists>reqs. sent (run_calls t self cs w) = sent w @ reqs \<and> length reqs = length cs
     \<and> (\<forall>req\<in>set reqs. req_headers req = headers self \<and> prefix (base_url self) (url req))"
proof (induction cs arbitrary: w)
  case Nil
  show ?case by simp
next
  case (Cons c cs)
  obtain req where 1: "sent (snd (run_call t self c w)) = sent w @ [req]"
    and 2: "req_headers req = headers self" "prefix (base_url self) (url req)"
    using run_call_sent by blast
  obtain reqs where 3: "sent (run_calls t self cs (snd (run_call t self c w)))
        = sent (snd (run_call t self c w)) @ reqs" and 4: "length reqs = length cs"
    and 5: "\<forall>q\<in>set reqs. req_headers q = headers self \<and> prefix (base_url self) (url q)"
    using Cons.IH by blast
  have "sent (run_calls t self (c # cs) w) = sent w @ (req # reqs)"
    using 1 3 by simp
  moreover have "length (req # reqs) = length (c # cs)"
    using 4 by simp
  moreover have "\<forall>q\<in>set (req # reqs). req_headers q = headers self \<and> prefix (base_url self) (url q)"
    using 2 5 by simp
  ultimately show ?case by blast
qed

lemma run_call_query:
  "read_operation c \<Longrightarrow>
   issued w (snd (run_call t self c w)) =
     [\<lparr>verb = GET, url = url (last (sent (snd (run_call t self c w)))),
       req_headers = headers self,
       query = filter (\<lambda>(k, v). v \<noteq> PyNone) (filter_arguments c), json_body = None\<rparr>]"
  by (cases c) (simp_all add: method_eqs Let_def handler_sent issued_def)

lemma unset_not_in_filter:
  "(k, PyNone) \<in> set ps \<Longrightarrow> distinct (map fst ps) \<Longrightarrow>
   k \<notin> fst ` set (filter (\<lambda>(k, v). v \<noteq> PyNone) ps)"
  by (induction ps) (auto simp: image_iff)

lemma distinct_filter_arguments: "distinct (map fst (filter_arguments c))"
  by (cases c) simp_all

section \<open>Failed requests\<close>

text \<open>
  Claim C1, as amended. For every call of a public method: when the one request it issues
  fails, that is the library raises a \<^verbatim>\<open>RequestException\<close> (connection error, timeout)
  or the response has a status from 400 to 599, the method returns \<^verbatim>\<open>None\<close> and no
  exception leaves it.
\<close>

theorem failed_request_returns_None:
  assumes "request_failed (t (sent w) (last (sent (snd (run_call t self c w)))))"
  shows "fst (run_call t self c w) = Inr (Atom PyNone)"
  using assms by (rule run_call_failed)

text \<open>\<^verbatim>\<open>get_users(status="active")\<close> against a server answering 500.\<close>

theorem failed_request_returns_None_witness:
  "request_failed
     (mock (Returned \<lparr>status_code = 500, json = Inr (PyDict [(''detail'', Atom (PyStr ''error''))])\<rparr>)
        (sent start)
        (last (sent (snd (run_call
           (mock (Returned \<lparr>status_code = 500, json = Inr (PyDict [(''detail'', Atom (PyStr ''error''))])\<rparr>))
           \<lparr>base_url = ''https://www.sweetprocess.com/api/v1'',
            headers = [(''Authorization'', ''Token k''), (''Content-Type'', ''application/json'')]\<rparr>
           (Get_users PyNone PyNone PyNone PyNone (PyStr ''active'')) start)))))
   \<and> fst (run_call
           (mock (Returned \<lparr>status_code = 500, json = Inr (PyDict [(''detail'', Atom (PyStr ''error''))])\<rparr>))
           \<lparr>base_url = ''https://www.sweetprocess.com/api/v1'',
            headers = [(''Authorization'', ''Token k''), (''Content-Type'', ''application/json'')]\<rparr>
           (Get_users PyNone PyNone PyNone PyNone (PyStr ''active'')) start) = Inr (Atom PyNone)"
proof -
  let ?t = "mock (Returned \<lparr>status_code = 500,
                            json = Inr (PyDict [(''detail'', Atom (PyStr ''error''))])\<rparr>)"
  let ?self = "\<lparr>base_url = ''https://www.sweetprocess.com/api/v1'',
                headers = [(''Authorization'', ''Token k''),
                           (''Content-Type'', ''application/json'')]\<rparr>"
  let ?c = "Get_users PyNone PyNone PyNone PyNone (PyStr ''active'')"
  have h: "request_failed (?t (sent start) (last (sent (snd (run_call ?t ?self ?c start)))))"
    by (simp add: mock_def)
  from h failed_request_returns_None [where t = ?t and w = start and self = ?self and c = ?c, OF h]
  show ?thesis by (rule conjI)
qed

text \<open>
  Claim C1 as stated fails for a status outside 2xx that \<^verbatim>\<open>raise_for_status\<close> lets
  pass: \<^verbatim>\<open>delete_user(42)\<close> answered with 304 returns 304, not \<^verbatim>\<open>None\<close>.
\<close>

theorem status_outside_2xx_counterexample:
  "fst (delete_user
          (mock (Returned \<lparr>status_code = 304, json = Inl (RequestException ''JSONDecodeError'')\<rparr>))
          \<lparr>base_url = ''https://www.sweetprocess.com/api/v1'',
           headers = [(''Authorization'', ''Token k''), (''Content-Type'', ''application/json'')]\<rparr>
          (PyInt 42) start) = Inr (Atom (PyInt 304))"
  by (simp add: delete_user_eq Let_def mock_def frame_status)

section \<open>Unset filters\<close>

text \<open>
  Claim C2. For a call of a list method, a filter left unset does not occur among the query
  parameters of the request the call issues, under any value.
\<close>

theorem unset_filters_omitted:
  assumes "(k, PyNone) \<in> set (filter_arguments c)"
      and "req \<in> set (issued w (snd (run_call t self c w)))"
  shows "k \<notin> fst ` set (query req)"
proof -
  have "read_operation c"
    using assms(1) by (cases c) simp_all
  then have "query req = filter (\<lambda>(k, v). v \<noteq> PyNone) (filter_arguments c)"
    using assms(2) by (auto simp add: run_call_query)
  then show ?thesis
    using assms(1) unset_not_in_filter distinct_filter_arguments by metis
qed

text \<open>\<^verbatim>\<open>get_users(status="active")\<close>: the query is the status alone, without \<^verbatim>\<open>team_id\<close>.\<close>

theorem unset_filters_omitted_witness:
  "(''team_id'', PyNone) \<in> set (filter_arguments (Get_users PyNone PyNone PyNone PyNone (PyStr ''active'')))
   \<and> \<lparr>verb = GET, url = ''https://www.sweetprocess.com/api/v1/users/'',
       req_headers = [(''Authorization'', ''Token k''), (''Content-Type'', ''application/json'')],
       query = [(''status'', PyStr ''active'')], json_body = None\<rparr>
      \<in> set (issued start (snd (run_call
           (mock (Returned \<lparr>status_code = 200, json = Inr (PyDict [(''results'', PyList [])])\<rparr>))
           \<lparr>base_url = ''https://www.sweetprocess.com/api/v1'',
            headers = [(''Authorization'', ''Token k''), (''Content-Type'', ''application/json'')]\<rparr>
           (Get_users PyNone PyNone PyNone PyNone (PyStr ''active'')) start)))
   \<and> ''team_id'' \<notin> fst ` set (query
       \<lparr>verb = GET, url = ''https://www.sweetprocess.com/api/v1/users/'',
        req_headers = [(''Authorization'', ''Token k''), (''Content-Type'', ''application/json'')],
        query = [(''status'', PyStr ''active'')], json_body = None\<rparr>)"
proof -
  let ?t = "mock (Returned \<lparr>status_code = 200, json = Inr (PyDict [(''results'', PyList [])])\<rparr>)"
  let ?self = "\<lparr>base_url = ''https://www.sweetprocess.com/api/v1'',
                headers = [(''Authorization'', ''Token k''),
                           (''Content-Type'', ''application/json'')]\<rparr>"
  let ?c = "Get_users PyNone PyNone PyNone PyNone (PyStr ''active'')"
  let ?req = "\<lparr>verb = GET, url = ''https://www.sweetprocess.com/api/v1/users/'',
       req_headers = [(''Authorization'', ''Token k''), (''Content-Type'', ''application/json'')],
       query = [(''status'', PyStr ''active'')], json_body = None\<rparr>"
  have h1: "(''team_id'', PyNone) \<in> set (filter_arguments ?c)"
    by simp
  have h2: "?req \<in> set (issued start (snd (run_call ?t ?self ?c start)))"
    by (simp add: get_users_eq Let_def handler_sent issued_def start_def)
  from h1 h2 unset_filters_omitted [where k = "''team_id''" and c = ?c and req = ?req
      and w = start and t = ?t and self = ?self, OF h1 h2]
  show ?thesis by blast
qed

section \<open>Construction\<close>

text \<open>
  Claim C3, as amended. With an absent (\<^verbatim>\<open>None\<close>) or empty token, construction raises a
  \<^verbatim>\<open>ValueError\<close> with the message \<^verbatim>\<open>API token is required.\<close>: no object is produced
  and no request has been issued. With a non-empty token it returns the object, again
  without issuing a request.
\<close>

theorem init_requires_token:
  "(api_token = PyNone \<or> api_token = PyStr [] \<longrightarrow>
      init api_token w = (Inl (ValueError ''API token is required.''), w))
   \<and> (s \<noteq> [] \<longrightarrow>
      init (PyStr s) w =
        (Inr \<lparr>base_url = ''https://www.sweetprocess.com/api/v1'',
              headers = [(''Authorization'', ''Token '' @ s),
                         (''Content-Type'', ''application/json'')]\<rparr>, w))"
  by (auto simp add: init_def)

text \<open>The empty token, the absent token and the token \<^verbatim>\<open>k\<close>.\<close>

theorem init_requires_token_witness:
  "init (PyStr []) start = (Inl (ValueError ''API token is required.''), start)
   \<and> init PyNone start = (Inl (ValueError ''API token is required.''), start)
   \<and> init (PyStr ''k'') start =
        (Inr \<lparr>base_url = ''https://www.sweetprocess.com/api/v1'',
              headers = [(''Authorization'', ''Token k''),
                         (''Content-Type'', ''application/json'')]\<rparr>, start)"
  using init_requires_token [where api_token = "PyStr []" and w = start and s = "''k''"]
        init_requires_token [where api_token = PyNone and w = start and s = "''k''"]
  by simp

text \<open>
  Claim C3 as stated has construction raise a \<^verbatim>\<open>ConfigurationError\<close>. With the empty
  token the exception is the built-in \<^verbatim>\<open>ValueError\<close>, not an exception of a class of
  that name.
\<close>

theorem init_error_class_counterexample:
  "fst (init (PyStr []) start) = Inl (ValueError ''API token is required.'')
   \<and> fst (init (PyStr []) start) \<noteq> Inl (OtherException ''ConfigurationError'')"
  by (simp add: init_def)

section \<open>Task instances\<close>

text \<open>
  Claim C4, as amended. \<^verbatim>\<open>get_taskinstances\<close> issues one GET to the base URL followed by
  \<^verbatim>\<open>/taskinstances/\<close>, and its query holds the filters that were provided, in this order
  and under these names: \<^verbatim>\<open>template_id\<close>, \<^verbatim>\<open>user\<close>, \<^verbatim>\<open>content_type\<close>, \<^verbatim>\<open>object_id\<close>,
  \<^verbatim>\<open>completed\<close>, \<^verbatim>\<open>due__lte\<close>, \<^verbatim>\<open>due__gte\<close>.
\<close>

theorem get_taskinstances_request:
  "sent (snd (get_taskinstances t self template_id user content_type object_id completed
                due__lte due__gte w)) =
     sent w @
     [\<lparr>verb = GET, url = base_url self @ ''/taskinstances/'', req_headers = headers self,
       query = filter (\<lambda>(k, v). v \<noteq> PyNone)
                 [(''template_id'', template_id), (''user'', user),
                  (''content_type'', content_type), (''object_id'', object_id),
                  (''completed'', completed), (''due__lte'', due__lte),
                  (''due__gte'', due__gte)],
       json_body = None\<rparr>]"
  by (simp add: get_taskinstances_eq Let_def handler_sent)

text \<open>A template, \<^verbatim>\<open>completed=False\<close> and a latest due date.\<close>

theorem get_taskinstances_request_witness:
  "sent (snd (get_taskinstances
       (mock (Returned \<lparr>status_code = 200, json = Inr (PyDict [(''results'', PyList [])])\<rparr>))
       \<lparr>base_url = ''https://www.sweetprocess.com/api/v1'',
        headers = [(''Authorization'', ''Token k''), (''Content-Type'', ''application/json'')]\<rparr>
       (PyInt 7) PyNone PyNone PyNone (PyBool False) (PyStr ''2024-06-30'') PyNone start)) =
     [\<lparr>verb = GET, url = ''https://www.sweetprocess.com/api/v1/taskinstances/'',
       req_headers = [(''Authorization'', ''Token k''), (''Content-Type'', ''application/json'')],
       query = [(''template_id'', PyInt 7), (''completed'', PyBool False),
                (''due__lte'', PyStr ''2024-06-30'')],
       json_body = None\<rparr>]"
  using get_taskinstances_request [where
      t = "mock (Returned \<lparr>status_code = 200, json = Inr (PyDict [(''results'', PyList [])])\<rparr>)"
      and self = "\<lparr>base_url = ''https://www.sweetprocess.com/api/v1'',
        headers = [(''Authorization'', ''Token k''), (''Content-Type'', ''application/json'')]\<rparr>"
      and template_id = "PyInt 7" and user = PyNone and content_type = PyNone
      and object_id = PyNone and completed = "PyBool False"
      and due__lte = "PyStr ''2024-06-30''" and due__gte = PyNone and w = start]
  by (simp add: start_def)

text \<open>
  Claim C4 as stated names the two date filters \<^verbatim>\<open>due_before\<close> and \<^verbatim>\<open>due_after\<close>. With
  both dates provided the query parameters are \<^verbatim>\<open>due__lte\<close> and \<^verbatim>\<open>due__gte\<close>.
\<close>

theorem due_filter_names_counterexample:
  "map fst (query (last (sent (snd (get_taskinstances
       (mock (Returned \<lparr>status_code = 200, json = Inr (PyDict [(''results'', PyList [])])\<rparr>))
       \<lparr>base_url = ''https://www.sweetprocess.com/api/v1'',
        headers = [(''Authorization'', ''Token k''), (''Content-Type'', ''application/json'')]\<rparr>
       PyNone PyNone PyNone PyNone PyNone (PyStr ''2024-06-30'') (PyStr ''2024-06-01'')
       start))))) = [''due__lte'', ''due__gte'']"
  by (simp add: get_taskinstances_eq Let_def handler_sent start_def)

section \<open>Invitations\<close>

text \<open>
  Claim C5. \<^verbatim>\<open>create_invitation\<close> issues one POST to the base URL followed by
  \<^verbatim>\<open>/invitations/\<close>; its JSON body is a list of one dictionary, whose keys are
  \<^verbatim>\<open>send_mail\<close>, \<^verbatim>\<open>content_type\<close>, \<^verbatim>\<open>permission\<close>, \<^verbatim>\<open>object_id\<close> and \<^verbatim>\<open>to_user_id\<close> with the
  five arguments as values.
\<close>

theorem create_invitation_request:
  "sent (snd (create_invitation t self send_mail content_type permission object_id to_user_id w)) =
     sent w @
     [\<lparr>verb = POST, url = base_url self @ ''/invitations/'', req_headers = headers self,
       query = [],
       json_body = Some (PyList [PyDict [(''send_mail'', send_mail),
                                         (''content_type'', content_type),
                                         (''permission'', permission),
                                         (''object_id'', object_id),
                                         (''to_user_id'', to_user_id)]])\<rparr>]"
  by (simp add: create_invitation_eq Let_def handler_sent)

text \<open>An invitation to view team 12.\<close>

theorem create_invitation_request_witness:
  "sent (snd (create_invitation
       (mock (Returned \<lparr>status_code = 201, json = Inr (PyList [])\<rparr>))
       \<lparr>base_url = ''https://www.sweetprocess.com/api/v1'',
        headers = [(''Authorization'', ''Token k''), (''Content-Type'', ''application/json'')]\<rparr>
       (Atom (PyBool True)) (Atom (PyStr ''team'')) (Atom (PyStr ''view'')) (Atom (PyInt 12))
       (Atom (PyStr ''https://www.sweetprocess.com/api/v1/users/42/'')) start)) =
     [\<lparr>verb = POST, url = ''https://www.sweetprocess.com/api/v1/invitations/'',
       req_headers = [(''Authorization'', ''Token k''), (''Content-Type'', ''application/json'')],
       query = [],
       json_body = Some (PyList [PyDict [(''send_mail'', Atom (PyBool True)),
                                         (''content_type'', Atom (PyStr ''team'')),
                                         (''permission'', Atom (PyStr ''view'')),
                                         (''object_id'', Atom (PyInt 12)),
                                         (''to_user_id'',
                                          Atom (PyStr ''https://www.sweetprocess.com/api/v1/users/42/''))]])\<rparr>]"
  using create_invitation_request [where
      t = "mock (Returned \<lparr>status_code = 201, json = Inr (PyList [])\<rparr>)"
      and self = "\<lparr>base_url = ''https://www.sweetprocess.com/api/v1'',
        headers = [(''Authorization'', ''Token k''), (''Content-Type'', ''application/json'')]\<rparr>"
      and send_mail = "Atom (PyBool True)" and content_type = "Atom (PyStr ''team'')"
      and permission = "Atom (PyStr ''view'')" and object_id = "Atom (PyInt 12)"
      and to_user_id = "Atom (PyStr ''https://www.sweetprocess.com/api/v1/users/42/'')"
      and w = start]
  by (simp add: start_def)

section \<open>Deleting a user\<close>

text \<open>
  Claim C6, as amended. \<^verbatim>\<open>delete_user\<close> issues one DELETE to the base URL followed by
  \<^verbatim>\<open>/users/{user_id}/\<close>. When the response has a 2xx status the method returns that status
  as a number; when the library raises a \<^verbatim>\<open>RequestException\<close> or the response has a status
  from 400 to 599 it returns \<^verbatim>\<open>None\<close>.
\<close>

theorem delete_user_status_code:
  assumes "req = \<lparr>verb = DELETE, url = base_url self @ ''/users/'' @ py_str user_id @ ''/'',
                   req_headers = headers self, query = [], json_body = None\<rparr>"
  shows "sent (snd (delete_user t self user_id w)) = sent w @ [req]
     \<and> (\<forall>r. t (sent w) req = Returned r \<and> 200 \<le> status_code r \<and> status_code r < 300 \<longrightarrow>
            fst (delete_user t self user_id w) = Inr (Atom (PyInt (status_code r))))
     \<and> (request_failed (t (sent w) req) \<longrightarrow>
            fst (delete_user t self user_id w) = Inr (Atom PyNone))"
  unfolding assms by (simp add: delete_user_eq Let_def handler_sent frame_status frame_failed)

text \<open>\<^verbatim>\<open>delete_user(42)\<close> answered with 204, and with a connection error.\<close>

theorem delete_user_status_code_witness:
  "sent (snd (delete_user (mock (Returned \<lparr>status_code = 204, json = Inl (RequestException ''JSONDecodeError'')\<rparr>))
       \<lparr>base_url = ''https://www.sweetprocess.com/api/v1'',
        headers = [(''Authorization'', ''Token k''), (''Content-Type'', ''application/json'')]\<rparr>
       (PyInt 42) start)) =
     [\<lparr>verb = DELETE, url = ''https://www.sweetprocess.com/api/v1/users/42/'',
       req_headers = [(''Authorization'', ''Token k''), (''Content-Type'', ''application/json'')],
       query = [], json_body = None\<rparr>]
   \<and> fst (delete_user (mock (Returned \<lparr>status_code = 204, json = Inl (RequestException ''JSONDecodeError'')\<rparr>))
       \<lparr>base_url = ''https://www.sweetprocess.com/api/v1'',
        headers = [(''Authorization'', ''Token k''), (''Content-Type'', ''application/json'')]\<rparr>
       (PyInt 42) start) = Inr (Atom (PyInt 204))
   \<and> fst (delete_user (mock (Raised (RequestException ''ConnectionError'')))
       \<lparr>base_url = ''https://www.sweetprocess.com/api/v1'',
        headers = [(''Authorization'', ''Token k''), (''Content-Type'', ''application/json'')]\<rparr>
       (PyInt 42) start) = Inr (Atom PyNone)"
proof -
  let ?self = "\<lparr>base_url = ''https://www.sweetprocess.com/api/v1'',
        headers = [(''Authorization'', ''Token k''), (''Content-Type'', ''application/json'')]\<rparr>"
  let ?req = "\<lparr>verb = DELETE, url = ''https://www.sweetprocess.com/api/v1/users/42/'',
       req_headers = [(''Authorization'', ''Token k''), (''Content-Type'', ''application/json'')],
       query = [], json_body = None\<rparr>"
  let ?r = "\<lparr>status_code = 204, json = Inl (RequestException ''JSONDecodeError'')\<rparr>"
  have h: "?req = \<lparr>verb = DELETE, url = base_url ?self @ ''/users/'' @ py_str (PyInt 42) @ ''/'',
                   req_headers = headers ?self, query = [], json_body = None\<rparr>"
    by (simp add: str_int_def digit_def)
  note a = delete_user_status_code [where req = ?req and self = ?self and user_id = "PyInt 42"
      and t = "mock (Returned ?r)" and w = start, OF h]
  note b = delete_user_status_code [where req = ?req and self = ?self and user_id = "PyInt 42"
      and t = "mock (Raised (RequestException ''ConnectionError''))" and w = start, OF h]
  have 1: "sent (snd (delete_user (mock (Returned ?r)) ?self (PyInt 42) start)) = [?req]"
    using a by (simp add: start_def)
  have 2: "fst (delete_user (mock (Returned ?r)) ?self (PyInt 42) start) = Inr (Atom (PyInt 204))"
    using a by (simp add: mock_def)
  have 3: "fst (delete_user (mock (Raised (RequestException ''ConnectionError''))) ?self
             (PyInt 42) start) = Inr (Atom PyNone)"
    using b by (simp add: mock_def)
  from 1 2 3 show ?thesis by blast
qed

text \<open>
  Claim C6 as stated returns \<^verbatim>\<open>None\<close> on failure, which the specification makes every
  status outside 2xx. \<^verbatim>\<open>delete_user(7)\<close> answered with 304 does not return \<^verbatim>\<open>None\<close>.
\<close>

theorem delete_user_not_modified_counterexample:
  "\<not> (200 \<le> status_code \<lparr>status_code = 304, json = Inl (RequestException ''JSONDecodeError'')\<rparr>
        \<and> status_code \<lparr>status_code = 304, json = Inl (RequestException ''JSONDecodeError'')\<rparr> < 300)
   \<and> fst (delete_user
          (mock (Returned \<lparr>status_code = 304, json = Inl (RequestException ''JSONDecodeError'')\<rparr>))
          \<lparr>base_url = ''https://www.sweetprocess.com/api/v1'',
           headers = [(''Authorization'', ''Token k''), (''Content-Type'', ''application/json'')]\<rparr>
          (PyInt 7) start) \<noteq> Inr (Atom PyNone)"
  by (simp add: delete_user_eq Let_def mock_def frame_status)

section \<open>Updating a user\<close>

text \<open>
  Claim C7, as amended. For a dictionary \<^verbatim>\<open>data\<close>, \<^verbatim>\<open>update_user\<close> issues one PATCH to the
  base URL followed by \<^verbatim>\<open>/users/{user_id}/\<close> whose JSON body is \<^verbatim>\<open>data\<close> itself. When the
  response has a 2xx status and its body decodes, the method returns the decoded body; when
  the library raises a \<^verbatim>\<open>RequestException\<close> or the response has a status from 400 to 599
  it returns \<^verbatim>\<open>None\<close>.
\<close>

theorem update_user_patch:
  assumes "req = \<lparr>verb = PATCH, url = base_url self @ ''/users/'' @ py_str user_id @ ''/'',
                   req_headers = headers self, query = [], json_body = Some (PyDict kvs)\<rparr>"
  shows "sent (snd (update_user t self user_id (PyDict kvs) w)) = sent w @ [req]
     \<and> (\<forall>r v. t (sent w) req = Returned r \<and> 200 \<le> status_code r \<and> status_code r < 300
               \<and> json r = Inr v \<longrightarrow>
            fst (update_user t self user_id (PyDict kvs) w) = Inr v)
     \<and> (request_failed (t (sent w) req) \<longrightarrow>
            fst (update_user t self user_id (PyDict kvs) w) = Inr (Atom PyNone))"
  unfolding assms by (simp add: update_user_eq Let_def handler_sent frame_json frame_failed)

text \<open>\<^verbatim>\<open>update_user(7, {"name": "X"})\<close> answered with 200, and with 404.\<close>

theorem update_user_patch_witness:
  "sent (snd (update_user
       (mock (Returned \<lparr>status_code = 200,
                         json = Inr (PyDict [(''id'', Atom (PyInt 7)), (''name'', Atom (PyStr ''X''))])\<rparr>))
       \<lparr>base_url = ''https://www.sweetprocess.com/api/v1'',
        headers = [(''Authorization'', ''Token k''), (''Content-Type'', ''application/json'')]\<rparr>
       (PyInt 7) (PyDict [(''name'', Atom (PyStr ''X''))]) start)) =
     [\<lparr>verb = PATCH, url = ''https://www.sweetprocess.com/api/v1/users/7/'',
       req_headers = [(''Authorization'', ''Token k''), (''Content-Type'', ''application/json'')],
       query = [], json_body = Some (PyDict [(''name'', Atom (PyStr ''X''))])\<rparr>]
   \<and> fst (update_user
       (mock (Returned \<lparr>status_code = 200,
                         json = Inr (PyDict [(''id'', Atom (PyInt 7)), (''name'', Atom (PyStr ''X''))])\<rparr>))
       \<lparr>base_url = ''https://www.sweetprocess.com/api/v1'',
        headers = [(''Authorization'', ''Token k''), (''Content-Type'', ''application/json'')]\<rparr>
       (PyInt 7) (PyDict [(''name'', Atom (PyStr ''X''))]) start) =
     Inr (PyDict [(''id'', Atom (PyInt 7)), (''name'', Atom (PyStr ''X''))])
   \<and> fst (update_user
       (mock (Returned \<lparr>status_code = 404, json = Inr (PyDict [])\<rparr>))
       \<lparr>base_url = ''https://www.sweetprocess.com/api/v1'',
        headers = [(''Authorization'', ''Token k''), (''Content-Type'', ''application/json'')]\<rparr>
       (PyInt 7) (PyDict [(''name'', Atom (PyStr ''X''))]) start) = Inr (Atom PyNone)"
proof -
  let ?self = "\<lparr>base_url = ''https://www.sweetprocess.com/api/v1'',
        headers = [(''Authorization'', ''Token k''), (''Content-Type'', ''application/json'')]\<rparr>"
  let ?req = "\<lparr>verb = PATCH, url = ''https://www.sweetprocess.com/api/v1/users/7/'',
       req_headers = [(''Authorization'', ''Token k''), (''Content-Type'', ''application/json'')],
       query = [], json_body = Some (PyDict [(''name'', Atom (PyStr ''X''))])\<rparr>"
  let ?v = "PyDict [(''id'', Atom (PyInt 7)), (''name'', Atom (PyStr ''X''))]"
  let ?ok = "mock (Returned \<lparr>status_code = 200, json = Inr ?v\<rparr>)"
  let ?ko = "mock (Returned \<lparr>status_code = 404, json = Inr (PyDict [])\<rparr>)"
  have h: "?req = \<lparr>verb = PATCH, url = base_url ?self @ ''/users/'' @ py_str (PyInt 7) @ ''/'',
                   req_headers = headers ?self, query = [],
                   json_body = Some (PyDict [(''name'', Atom (PyStr ''X''))])\<rparr>"
    by (simp add: str_int_def digit_def)
  note a = update_user_patch [where req = ?req and self = ?self and user_id = "PyInt 7"
      and kvs = "[(''name'', Atom (PyStr ''X''))]" and t = ?ok and w = start, OF h]
  note b = update_user_patch [where req = ?req and self = ?self and user_id = "PyInt 7"
      and kvs = "[(''name'', Atom (PyStr ''X''))]" and t = ?ko and w = start, OF h]
  have 1: "sent (snd (update_user ?ok ?self (PyInt 7) (PyDict [(''name'', Atom (PyStr ''X''))]) start))
             = [?req]"
    using a by (simp add: start_def)
  have 2: "fst (update_user ?ok ?self (PyInt 7) (PyDict [(''name'', Atom (PyStr ''X''))]) start)
             = Inr ?v"
    using a by (simp add: mock_def)
  have 3: "fst (update_user ?ko ?self (PyInt 7) (PyDict [(''name'', Atom (PyStr ''X''))]) start)
             = Inr (Atom PyNone)"
    using b by (simp add: mock_def)
  from 1 2 3 show ?thesis by blast
qed

text \<open>
  Claim C7 as stated returns \<^verbatim>\<open>None\<close> on failure, which the specification makes every
  status outside 2xx. \<^verbatim>\<open>update_user(7, {"name": "X"})\<close> answered with 300 and a JSON body
  returns the decoded body.
\<close>

theorem update_user_multiple_choices_counterexample:
  "\<not> (200 \<le> status_code \<lparr>status_code = 300, json = Inr (PyDict [(''name'', Atom (PyStr ''X''))])\<rparr>
        \<and> status_code \<lparr>status_code = 300, json = Inr (PyDict [(''name'', Atom (PyStr ''X''))])\<rparr> < 300)
   \<and> fst (update_user
          (mock (Returned \<lparr>status_code = 300, json = Inr (PyDict [(''name'', Atom (PyStr ''X''))])\<rparr>))
          \<lparr>base_url = ''https://www.sweetprocess.com/api/v1'',
           headers = [(''Authorization'', ''Token k''), (''Content-Type'', ''application/json'')]\<rparr>
          (PyInt 7) (PyDict [(''name'', Atom (PyStr ''X''))]) start)
       = Inr (PyDict [(''name'', Atom (PyStr ''X''))])"
  by (simp add: update_user_eq Let_def mock_def frame_json)

section \<open>Reading\<close>

text \<open>
  Claim C8. For a call of one of the three list methods: when the response to its request
  has a 2xx status and its body decodes to a value, the method returns that value as it is.
\<close>

theorem read_returns_decoded_body:
  assumes "read_operation c"
      and "t (sent w) (last (sent (snd (run_call t self c w)))) = Returned r"
      and "200 \<le> status_code r" and "status_code r < 300"
      and "json r = Inr v"
  shows "fst (run_call t self c w) = Inr v"
  using assms by (intro run_call_json) simp_all

text \<open>\<^verbatim>\<open>get_users(status="active")\<close> answered with 200 and a dictionary of results.\<close>

theorem read_returns_decoded_body_witness:
  "read_operation (Get_users PyNone PyNone PyNone PyNone (PyStr ''active''))
   \<and> mock (Returned \<lparr>status_code = 200,
                      json = Inr (PyDict [(''results'', PyList [Atom (PyInt 1), Atom (PyInt 2)])])\<rparr>)
        (sent start)
        (last (sent (snd (run_call
           (mock (Returned \<lparr>status_code = 200,
                      json = Inr (PyDict [(''results'', PyList [Atom (PyInt 1), Atom (PyInt 2)])])\<rparr>))
           \<lparr>base_url = ''https://www.sweetprocess.com/api/v1'',
            headers = [(''Authorization'', ''Token k''), (''Content-Type'', ''application/json'')]\<rparr>
           (Get_users PyNone PyNone PyNone PyNone (PyStr ''active'')) start))))
      = Returned \<lparr>status_code = 200,
                  json = Inr (PyDict [(''results'', PyList [Atom (PyInt 1), Atom (PyInt 2)])])\<rparr>
   \<and> fst (run_call
           (mock (Returned \<lparr>status_code = 200,
                      json = Inr (PyDict [(''results'', PyList [Atom (PyInt 1), Atom (PyInt 2)])])\<rparr>))
           \<lparr>base_url = ''https://www.sweetprocess.com/api/v1'',
            headers = [(''Authorization'', ''Token k''), (''Content-Type'', ''application/json'')]\<rparr>
           (Get_users PyNone PyNone PyNone PyNone (PyStr ''active'')) start)
      = Inr (PyDict [(''results'', PyList [Atom (PyInt 1), Atom (PyInt 2)])])"
proof -
  let ?v = "PyDict [(''results'', PyList [Atom (PyInt 1), Atom (PyInt 2)])]"
  let ?r = "\<lparr>status_code = 200, json = Inr ?v\<rparr>"
  let ?t = "mock (Returned ?r)"
  let ?self = "\<lparr>base_url = ''https://www.sweetprocess.com/api/v1'',
        headers = [(''Authorization'', ''Token k''), (''Content-Type'', ''application/json'')]\<rparr>"
  let ?c = "Get_users PyNone PyNone PyNone PyNone (PyStr ''active'')"
  have h1: "read_operation ?c" by simp
  have h2: "?t (sent start) (last (sent (snd (run_call ?t ?self ?c start)))) = Returned ?r"
    by (simp add: mock_def)
  have h3: "200 \<le> status_code ?r" and h4: "status_code ?r < 300" and h5: "json ?r = Inr ?v"
    by simp_all
  from h1 h2 read_returns_decoded_body [where c = ?c and t = ?t and w = start and self = ?self
      and r = ?r and v = ?v, OF h1 h2 h3 h4 h5]
  show ?thesis by blast
qed

section \<open>Headers and base URL\<close>

text \<open>
  Claim C9. Take the object that construction returns for a token, and make any sequence
  of calls on it, whatever the transport answers. Every request issued carries the two
  headers fixed at construction and no other from the wrapper, \<^verbatim>\<open>Authorization\<close> with
  \<^verbatim>\<open>Token\<close> and the token, and \<^verbatim>\<open>Content-Type\<close> with \<^verbatim>\<open>application/json\<close>; and its
  URL starts with the base URL. No method assigns an attribute of the object, so the
  calls of a sequence all read the same base URL and headers.
\<close>

theorem requests_carry_construction_headers:
  assumes "init api_token w0 = (Inr self, w1)"
      and "req \<in> set (issued w1 (run_calls t self cs w1))"
  shows "req_headers req = [(''Authorization'', ''Token '' @ py_str api_token),
                            (''Content-Type'', ''application/json'')]
     \<and> prefix ''https://www.sweetprocess.com/api/v1'' (url req)"
proof -
  have self: "base_url self = ''https://www.sweetprocess.com/api/v1''"
    "headers self = [(''Authorization'', ''Token '' @ py_str api_token),
                     (''Content-Type'', ''application/json'')]"
    using assms(1) by (auto simp add: init_def split: if_splits)
  obtain reqs where "sent (run_calls t self cs w1) = sent w1 @ reqs"
    and all: "\<forall>q\<in>set reqs. req_headers q = headers self \<and> prefix (base_url self) (url q)"
    using run_calls_sent by blast
  then have "issued w1 (run_calls t self cs w1) = reqs"
    by (simp add: issued_def)
  with assms(2) all self show ?thesis by simp
qed

text \<open>The second request of \<^verbatim>\<open>delete_user(42)\<close> then \<^verbatim>\<open>get_users(status="active")\<close>.\<close>

theorem requests_carry_construction_headers_witness:
  "init (PyStr ''k'') start =
     (Inr \<lparr>base_url = ''https://www.sweetprocess.com/api/v1'',
           headers = [(''Authorization'', ''Token k''), (''Content-Type'', ''application/json'')]\<rparr>,
      start)
   \<and> \<lparr>verb = GET, url = ''https://www.sweetprocess.com/api/v1/users/'',
       req_headers = [(''Authorization'', ''Token k''), (''Content-Type'', ''application/json'')],
       query = [(''status'', PyStr ''active'')], json_body = None\<rparr>
      \<in> set (issued start (run_calls
           (mock (Returned \<lparr>status_code = 500, json = Inr (PyDict [])\<rparr>))
           \<lparr>base_url = ''https://www.sweetprocess.com/api/v1'',
            headers = [(''Authorization'', ''Token k''), (''Content-Type'', ''application/json'')]\<rparr>
           [Delete_user (PyInt 42), Get_users PyNone PyNone PyNone PyNone (PyStr ''active'')]
           start))
   \<and> req_headers
        \<lparr>verb = GET, url = ''https://www.sweetprocess.com/api/v1/users/'',
         req_headers = [(''Authorization'', ''Token k''), (''Content-Type'', ''application/json'')],
         query = [(''status'', PyStr ''active'')], json_body = None\<rparr>
      = [(''Authorization'', ''Token k''), (''Content-Type'', ''application/json'')]
   \<and> prefix ''https://www.sweetprocess.com/api/v1''
        (url \<lparr>verb = GET, url = ''https://www.sweetprocess.com/api/v1/users/'',
              req_headers = [(''Authorization'', ''Token k''), (''Content-Type'', ''application/json'')],
              query = [(''status'', PyStr ''active'')], json_body = None\<rparr>)"
proof -
  let ?self = "\<lparr>base_url = ''https://www.sweetprocess.com/api/v1'',
        headers = [(''Authorization'', ''Token k''), (''Content-Type'', ''application/json'')]\<rparr>"
  let ?req = "\<lparr>verb = GET, url = ''https://www.sweetprocess.com/api/v1/users/'',
       req_headers = [(''Authorization'', ''Token k''), (''Content-Type'', ''application/json'')],
       query = [(''status'', PyStr ''active'')], json_body = None\<rparr>"
  let ?t = "mock (Returned \<lparr>status_code = 500, json = Inr (PyDict [])\<rparr>)"
  let ?cs = "[Delete_user (PyInt 42), Get_users PyNone PyNone PyNone PyNone (PyStr ''active'')]"
  have h1: "init (PyStr ''k'') start = (Inr ?self, start)"
    by (simp add: init_def)
  have h2: "?req \<in> set (issued start (run_calls ?t ?self ?cs start))"
    by (simp add: delete_user_eq get_users_eq Let_def handler_sent issued_def start_def)
  have "req_headers ?req = [(''Authorization'', ''Token '' @ py_str (PyStr ''k'')),
                            (''Content-Type'', ''application/json'')]
     \<and> prefix ''https://www.sweetprocess.com/api/v1'' (url ?req)"
    by (rule requests_carry_construction_headers [where api_token = "PyStr ''k''"
          and ?w0.0 = start and self = ?self and ?w1.0 = start and req = ?req and t = ?t
          and cs = ?cs, OF h1 h2])
  with h1 h2 show ?thesis by simp
qed

section \<open>Deleting: the status alone\<close>

text \<open>
  Claim C10. Let two transports answer with responses of the same status and any bodies,
  JSON or not. Then \<^verbatim>\<open>delete_user\<close> behaves the same under both, and so does
  \<^verbatim>\<open>delete_teamuser\<close>; with a 2xx status each returns that status. The body is not read.
\<close>

theorem delete_result_ignores_body:
  assumes "\<And>q. t1 (sent w) q = Returned r1" and "\<And>q. t2 (sent w) q = Returned r2"
      and "status_code r1 = status_code r2"
  shows "delete_user t1 self i w = delete_user t2 self i w
     \<and> delete_teamuser t1 self i w = delete_teamuser t2 self i w
     \<and> (200 \<le> status_code r1 \<and> status_code r1 < 300 \<longrightarrow>
          fst (delete_user t1 self i w) = Inr (Atom (PyInt (status_code r1)))
        \<and> fst (delete_teamuser t1 self i w) = Inr (Atom (PyInt (status_code r1))))"
  using assms
  by (simp add: delete_user_eq delete_teamuser_eq Let_def frame_status
        except_RequestException_def try_body_def raise_for_status_def return_status_code_def)

text \<open>Status 204 with an empty body that does not decode, and with a JSON body.\<close>

theorem delete_result_ignores_body_witness:
  "delete_user (mock (Returned \<lparr>status_code = 204, json = Inl (RequestException ''JSONDecodeError'')\<rparr>))
       \<lparr>base_url = ''https://www.sweetprocess.com/api/v1'',
        headers = [(''Authorization'', ''Token k''), (''Content-Type'', ''application/json'')]\<rparr>
       (PyInt 42) start
     = delete_user (mock (Returned \<lparr>status_code = 204, json = Inr (PyDict [(''ok'', Atom (PyBool True))])\<rparr>))
       \<lparr>base_url = ''https://www.sweetprocess.com/api/v1'',
        headers = [(''Authorization'', ''Token k''), (''Content-Type'', ''application/json'')]\<rparr>
       (PyInt 42) start
   \<and> fst (delete_user (mock (Returned \<lparr>status_code = 204, json = Inl (RequestException ''JSONDecodeError'')\<rparr>))
       \<lparr>base_url = ''https://www.sweetprocess.com/api/v1'',
        headers = [(''Authorization'', ''Token k''), (''Content-Type'', ''application/json'')]\<rparr>
       (PyInt 42) start) = Inr (Atom (PyInt 204))
   \<and> fst (delete_teamuser (mock (Returned \<lparr>status_code = 204, json = Inl (RequestException ''JSONDecodeError'')\<rparr>))
       \<lparr>base_url = ''https://www.sweetprocess.com/api/v1'',
        headers = [(''Authorization'', ''Token k''), (''Content-Type'', ''application/json'')]\<rparr>
       (PyInt 42) start) = Inr (Atom (PyInt 204))"
proof -
  let ?self = "\<lparr>base_url = ''https://www.sweetprocess.com/api/v1'',
        headers = [(''Authorization'', ''Token k''), (''Content-Type'', ''application/json'')]\<rparr>"
  let ?r1 = "\<lparr>status_code = 204, json = Inl (RequestException ''JSONDecodeError'')\<rparr>"
  let ?r2 = "\<lparr>status_code = 204, json = Inr (PyDict [(''ok'', Atom (PyBool True))])\<rparr>"
  have h1: "\<And>q. mock (Returned ?r1) (sent start) q = Returned ?r1"
    by (simp add: mock_def)
  have h2: "\<And>q. mock (Returned ?r2) (sent start) q = Returned ?r2"
    by (simp add: mock_def)
  have h3: "status_code ?r1 = status_code ?r2"
    by simp
  note a = delete_result_ignores_body [where ?t1.0 = "mock (Returned ?r1)"
      and ?t2.0 = "mock (Returned ?r2)" and ?r1.0 = ?r1 and ?r2.0 = ?r2 and w = start
      and self = ?self and i = "PyInt 42", OF h1 h2 h3]
  have h4: "200 \<le> status_code ?r1 \<and> status_code ?r1 < 300"
    by simp
  have h5: "status_code ?r1 = 204"
    by simp
  from a h4 show ?thesis unfolding h5 by blast
qed

end
